theory Spec2Isabelle
  imports Main "HOL-Library.Word"
begin

section \<open>JavaScript strings\<close>

text \<open>
  A JavaScript string is a sequence of UTF-16 code units; \<open>length\<close>, indexing,
  \<open>slice\<close> and the regular expressions of the sources (none has the \<open>u\<close> flag) all
  work on code units.
\<close>

type_synonym code_unit = "16 word"
type_synonym jsstring = "code_unit list"

definition js :: "string \<Rightarrow> jsstring" where
  \<comment> \<open>an ASCII literal of the source as code units\<close>
  "js s = map (\<lambda>c. of_nat (of_char c)) s"

definition slice :: "jsstring \<Rightarrow> nat \<Rightarrow> nat \<Rightarrow> jsstring" where
  \<comment> \<open>\<open>s.slice(a, b)\<close> for non-negative integers: out-of-range bounds are cut to the length\<close>
  "slice s a b = drop a (take b s)"

definition slice_from :: "jsstring \<Rightarrow> nat \<Rightarrow> jsstring" where
  \<comment> \<open>\<open>s.slice(a)\<close>\<close>
  "slice_from s a = drop a s"

definition char_at :: "jsstring \<Rightarrow> nat \<Rightarrow> code_unit option" where
  \<comment> \<open>\<open>s[i]\<close>: \<open>undefined\<close> (here \<open>None\<close>) out of range\<close>
  "char_at s i = (if i < length s then Some (s ! i) else None)"

definition is_space :: "code_unit \<Rightarrow> bool" where
  \<comment> \<open>the class \<open>\s\<close>, which is also what \<open>String.prototype.trim\<close> strips:
      WhiteSpace and LineTerminator of ECMAScript\<close>
  "is_space c \<longleftrightarrow>
     c = 0x09 \<or> c = 0x0A \<or> c = 0x0B \<or> c = 0x0C \<or> c = 0x0D \<or> c = 0x20 \<or> c = 0xA0 \<or>
     c = 0x1680 \<or> (0x2000 \<le> c \<and> c \<le> 0x200A) \<or> c = 0x2028 \<or> c = 0x2029 \<or>
     c = 0x202F \<or> c = 0x205F \<or> c = 0x3000 \<or> c = 0xFEFF"

definition trim :: "jsstring \<Rightarrow> jsstring" where
  "trim s = rev (dropWhile is_space (rev (dropWhile is_space s)))"

section \<open>The info panel: \<open>characterCount\<close>\<close>

definition high_surrogate :: "code_unit \<Rightarrow> bool" where
  \<comment> \<open>\<open>[\uD800-\uDBFF]\<close>\<close>
  "high_surrogate c \<longleftrightarrow> 0xD800 \<le> c \<and> c \<le> 0xDBFF"

definition low_surrogate :: "code_unit \<Rightarrow> bool" where
  \<comment> \<open>\<open>[\uDC00-\uDFFF]\<close>\<close>
  "low_surrogate c \<longleftrightarrow> 0xDC00 \<le> c \<and> c \<le> 0xDFFF"

fun replace_surrogatePairs :: "jsstring \<Rightarrow> jsstring" where
  \<comment> \<open>\<open>.replace(surrogatePairs, '_')\<close> with the global flag: matches are found from
      left to right and do not overlap\<close>
  "replace_surrogatePairs (a # b # cs) =
     (if high_surrogate a \<and> low_surrogate b then 0x5F # replace_surrogatePairs cs
      else a # replace_surrogatePairs (b # cs))"
| "replace_surrogatePairs cs = cs"

definition characterCount :: "jsstring option \<Rightarrow> nat" where
  \<comment> \<open>\<open>None\<close> is \<open>null\<close> or \<open>undefined\<close>; \<open>content || ''\<close> makes it (and the empty
      string, which is falsy) the empty string\<close>
  "characterCount content =
     length (replace_surrogatePairs
       (case content of None \<Rightarrow> [] | Some s \<Rightarrow> if s = [] then [] else s))"

definition surrogate_pairs_in :: "jsstring \<Rightarrow> nat" where
  \<comment> \<open>the claim's words: the number of places where a high surrogate is immediately
      followed by a low surrogate\<close>
  "surrogate_pairs_in s =
     length (filter (\<lambda>i. high_surrogate (s ! i) \<and> low_surrogate (s ! Suc i)) [0..<length s - 1])"

section \<open>The editor component: data\<close>

text \<open>
  Errors are values: \<open>TypeError\<close> is what reading a property of \<open>null\<close> or
  \<open>undefined\<close> throws; \<open>SurfaceError\<close> is an exception thrown by the text surface
  itself (the Monaco editor), for instance for a line number it does not have.
\<close>

datatype error = TypeError | SurfaceError

datatype direction = LTR | RTL
  \<comment> \<open>the store's \<open>'LTR' | 'RTL'\<close>\<close>

datatype SelectionDirection = SelectionDirection_LTR | SelectionDirection_RTL
  \<comment> \<open>the surface's enumeration\<close>

datatype CursorChangeReason =
  NotSet | ContentFlush | RecoverFromMarkers | Explicit | Paste | Undo | Redo

datatype editor_mode = fast | full

type_synonym EntityId = jsstring

record Note =
  content :: jsstring

record Props =
  editorSelection :: "nat \<times> nat \<times> direction"
  keyboardShortcuts :: bool
  noteId :: EntityId
  note_prop :: Note  \<comment> \<open>\<open>props.note\<close>\<close>

record OwnState =
  content :: jsstring
  editor :: editor_mode
  noteId :: "EntityId option"
  overTodo :: bool

record TaskTransform =
  \<comment> \<open>the two functions imported from \<open>./utils/task-transform\<close>: the component only
      calls them, so every definition below takes them as a parameter\<close>
  withCheckboxSyntax :: "jsstring \<Rightarrow> jsstring"
  withCheckboxCharacters :: "jsstring \<Rightarrow> jsstring"

subsection \<open>The text surface\<close>

text \<open>
  The surface is the Monaco editor, a dependency of the repository. Its text model is a
  record of the four queries the component calls, so that every theorem holds for
  whatever these queries answer; \<open>getLineContent\<close> may throw. \<open>getModel()\<close> may be
  \<open>null\<close>.
\<close>

record IPosition =
  lineNumber :: nat
  column :: nat

record IRange =
  startLineNumber :: nat
  startColumn :: nat
  endLineNumber :: nat
  endColumn :: nat

record ITextModel =
  getLineCount :: nat
  getLineContent :: "nat \<Rightarrow> error + jsstring"
  getOffsetAt :: "IPosition \<Rightarrow> nat"
  getPositionAt :: "nat \<Rightarrow> IPosition"

record IStandaloneCodeEditor =
  getModel :: "ITextModel option"

record Selection =
  \<comment> \<open>a selection as the surface reports it in an event\<close>
  getStartPosition :: IPosition
  getEndPosition :: IPosition
  getDirection :: SelectionDirection

datatype SelectionArgs =
  createWithDirection "nat option" "nat option" "nat option" "nat option" SelectionDirection
  \<comment> \<open>\<open>Selection.createWithDirection(startLineNumber, startColumn, endLineNumber,
      endColumn, direction)\<close>; a coordinate is \<open>None\<close> when the source passes
      \<open>undefined\<close>\<close>

record IIdentifiedSingleEditOperation =
  op_range :: IRange
  op_text :: jsstring
  forceMoveMarkers :: bool

subsection \<open>Effects\<close>

text \<open>
  What a handler does to the outside is a list of effects, in the order of the calls:
  the actions dispatched to the store, the calls on the event and the commands sent to
  the surface. \<open>Microtask\<close> wraps a call deferred with \<open>Promise.resolve().then\<close>.
\<close>

datatype effect =
  EditNote EntityId jsstring
| InsertTask
| StoreEditorSelection EntityId "nat option" "nat option" direction
| StopPropagation
| PreventDefault
| DeltaDecorations nat
| SetOnCopy
| SetSelection SelectionArgs
| RevealLine nat
| Focus
| ExecuteEdits jsstring "IIdentifiedSingleEditOperation list"
| SetPosition IPosition
| Microtask effect

record outcome =
  effects :: "effect list"
  thrown :: "error option"

definition completes :: "effect list \<Rightarrow> outcome" where
  "completes es = \<lparr>effects = es, thrown = None\<rparr>"

definition throws :: "effect list \<Rightarrow> error \<Rightarrow> outcome" where
  "throws es e = \<lparr>effects = es, thrown = Some e\<rparr>"

section \<open>Mode selection: \<open>getDerivedStateFromProps\<close>\<close>

definition getDerivedStateFromProps :: "TaskTransform \<Rightarrow> Props \<Rightarrow> OwnState \<Rightarrow> OwnState option" where
  \<comment> \<open>\<open>Some s\<close> is the state with the returned fields merged in, \<open>None\<close> the
      \<open>null\<close> that leaves the state as it is\<close>
  "getDerivedStateFromProps tt props state =
     (let content = Note.content (note_prop props);
          goFast = length content > 5000
      in if Some (Props.noteId props) \<noteq> OwnState.noteId state then
           Some (state\<lparr>
             OwnState.content :=
               (if goFast then slice content 0 (fst (snd (editorSelection props)) + 5000)
                else withCheckboxCharacters tt content),
             OwnState.editor := (if goFast then fast else full),
             OwnState.noteId := Some (Props.noteId props)\<rparr>)
         else if content \<noteq> OwnState.content state then
           Some (state\<lparr>OwnState.content := withCheckboxCharacters tt content\<rparr>)
         else None)"

section \<open>The keyboard shortcut: \<open>handleKeys\<close>\<close>

record KeyboardEvent =
  code :: jsstring
  ctrlKey :: bool
  metaKey :: bool
  shiftKey :: bool

definition handleKeys :: "Props \<Rightarrow> KeyboardEvent \<Rightarrow> bool option \<times> effect list" where
  \<comment> \<open>the value returned (\<open>None\<close> for \<open>undefined\<close>) and the effects\<close>
  "handleKeys props event =
     (if \<not> keyboardShortcuts props then (None, [])
      else let cmdOrCtrl = ctrlKey event \<or> metaKey event
           in if cmdOrCtrl \<and> shiftKey event \<and> js ''KeyC'' = code event
              then (Some False, [InsertTask, StopPropagation, PreventDefault])
              else (Some True, []))"

section \<open>Surface to store: the cursor selection handler\<close>

record ICursorSelectionChangedEvent =
  reason :: CursorChangeReason
  selection :: Selection

definition onDidChangeCursorSelection ::
  "Props \<Rightarrow> IStandaloneCodeEditor \<Rightarrow> ICursorSelectionChangedEvent \<Rightarrow> effect list" where
  "onDidChangeCursorSelection props ed e =
     (if reason e = Undo \<or> reason e = Redo then []
      else let start = map_option (\<lambda>m. getOffsetAt m (getStartPosition (selection e))) (getModel ed);
               end' = map_option (\<lambda>m. getOffsetAt m (getEndPosition (selection e))) (getModel ed);
               direction = (if getDirection (selection e) = SelectionDirection_LTR then LTR else RTL)
           in [StoreEditorSelection (Props.noteId props) start end' direction])"

section \<open>Toggling a checkbox: the mouse-down handler\<close>

record IEditorMouseEvent =
  target_range :: "IRange option"  \<comment> \<open>\<open>event.target.range\<close>\<close>

definition onMouseDown ::
  "TaskTransform \<Rightarrow> Props \<Rightarrow> OwnState \<Rightarrow> IStandaloneCodeEditor \<Rightarrow> IEditorMouseEvent \<Rightarrow> effect list" where
  "onMouseDown tt props state ed event =
     (let content = OwnState.content state
      in case target_range event of
           None \<Rightarrow> []
         | Some rng \<Rightarrow>
             (case getModel ed of
                None \<Rightarrow> []
              | Some model \<Rightarrow>
                  (let offset = getOffsetAt model
                         \<lparr>lineNumber = startLineNumber rng, column = startColumn rng\<rparr>
                   in if char_at content offset = Some 0xE000 then
                        [EditNote (Props.noteId props)
                           (withCheckboxSyntax tt
                              (slice content 0 offset @ [0xE001] @ slice_from content (offset + 1)))]
                      else if char_at content offset = Some 0xE001 then
                        [EditNote (Props.noteId props)
                           (withCheckboxSyntax tt
                              (slice content 0 offset @ [0xE000] @ slice_from content (offset + 1)))]
                      else [])))"

section \<open>The component instance and its lifecycle\<close>

datatype Monaco = Monaco
  \<comment> \<open>the handle of the surface's module, kept by \<open>editorReady\<close>\<close>

record NoteContentEditor =
  props :: Props
  state :: OwnState
  bootTimer :: "nat option"
  editor :: "IStandaloneCodeEditor option"
  monaco :: "Monaco option"

definition SPEED_DELAY :: nat where
  "SPEED_DELAY = 120"

record Timeout =
  \<comment> \<open>a pending timeout of the host: its handle, its delay in milliseconds, and the
      \<open>noteId\<close> that the callback given by \<open>componentDidMount\<close> has captured\<close>
  handle :: nat
  delay :: nat
  captured_noteId :: EntityId

record Window =
  \<comment> \<open>the handles of the host are positive integers\<close>
  timers :: "Timeout list"
  lastHandle :: nat
  keydownListener :: bool

definition clearTimeout :: "nat \<Rightarrow> Window \<Rightarrow> Window" where
  "clearTimeout h win = win\<lparr>timers := filter (\<lambda>t. handle t \<noteq> h) (timers win)\<rparr>"

definition componentDidMount :: "NoteContentEditor \<Rightarrow> Window \<Rightarrow> NoteContentEditor \<times> Window" where
  "componentDidMount this win =
     (let noteId = Props.noteId (props this);
          h = Suc (lastHandle win)
      in (this\<lparr>bootTimer := Some h\<rparr>,
          win\<lparr>keydownListener := True,
              timers := timers win @ [\<lparr>handle = h, delay = SPEED_DELAY, captured_noteId = noteId\<rparr>],
              lastHandle := h\<rparr>))"

definition bootTimer_callback :: "TaskTransform \<Rightarrow> EntityId \<Rightarrow> NoteContentEditor \<Rightarrow> NoteContentEditor" where
  \<comment> \<open>the function given to \<open>setTimeout\<close>; \<open>captured\<close> is the \<open>noteId\<close> of the props at mount\<close>
  "bootTimer_callback tt captured this =
     (if captured = Props.noteId (props this) then
        this\<lparr>state := (state this)\<lparr>
          OwnState.editor := full,
          OwnState.content := withCheckboxCharacters tt (Note.content (note_prop (props this)))\<rparr>\<rparr>
      else this)"

definition timer_fires ::
  "TaskTransform \<Rightarrow> nat \<Rightarrow> NoteContentEditor \<times> Window \<Rightarrow> NoteContentEditor \<times> Window" where
  \<comment> \<open>the host runs the callback of the pending timeout with handle \<open>h\<close>, once\<close>
  "timer_fires tt h w =
     (case find (\<lambda>t. handle t = h) (timers (snd w)) of
        None \<Rightarrow> w
      | Some t \<Rightarrow> (bootTimer_callback tt (captured_noteId t) (fst w), clearTimeout h (snd w)))"

definition componentWillUnmount :: "NoteContentEditor \<Rightarrow> Window \<Rightarrow> Window" where
  "componentWillUnmount this win =
     (let win' = (case bootTimer this of
                    None \<Rightarrow> win
                  | Some h \<Rightarrow> if h \<noteq> 0 then clearTimeout h win else win)
      in win'\<lparr>keydownListener := False\<rparr>)"

definition componentDidUpdate :: "Props \<Rightarrow> NoteContentEditor \<Rightarrow> effect list" where
  "componentDidUpdate prevProps this =
     (case editorSelection prevProps of (prevStart, prevEnd, prevDirection) \<Rightarrow>
     (case editorSelection (props this) of (thisStart, thisEnd, thisDirection) \<Rightarrow>
     (case NoteContentEditor.editor this of
        None \<Rightarrow> []
      | Some ed \<Rightarrow>
          if OwnState.editor (state this) = full \<and>
             (prevStart \<noteq> thisStart \<or> prevEnd \<noteq> thisEnd \<or> prevDirection \<noteq> thisDirection)
          then
            (let start = map_option (\<lambda>m. getPositionAt m thisStart) (getModel ed);
                 end' = map_option (\<lambda>m. getPositionAt m thisEnd) (getModel ed)
             in [SetSelection (createWithDirection
                   (map_option lineNumber start) (map_option column start)
                   (map_option lineNumber end') (map_option column end')
                   (if thisDirection = RTL then SelectionDirection_RTL
                    else SelectionDirection_LTR))])
          else [])))"

definition receive_props ::
  "TaskTransform \<Rightarrow> Props \<Rightarrow> NoteContentEditor \<Rightarrow> NoteContentEditor \<times> effect list" where
  \<comment> \<open>an update with new props, in the order of the framework: the derived state, then
      \<open>componentDidUpdate\<close> with the previous props\<close>
  "receive_props tt newProps this =
     (let this' = this\<lparr>props := newProps,
            state := (case getDerivedStateFromProps tt newProps (state this) of
                        None \<Rightarrow> state this
                      | Some s \<Rightarrow> s)\<rparr>
      in (this', componentDidUpdate (props this) this'))"

subsection \<open>\<open>editorReady\<close>\<close>

fun first_titled_line :: "ITextModel \<Rightarrow> nat list \<Rightarrow> error + nat option" where
  \<comment> \<open>the loop of \<open>decorateFirstLine\<close> over the line numbers still to visit\<close>
  "first_titled_line model [] = Inr None"
| "first_titled_line model (i # is) =
     (case getLineContent model i of
        Inl e \<Rightarrow> Inl e
      | Inr line \<Rightarrow>
          if length (trim line) > 0 then Inr (Some i) else first_titled_line model is)"

definition decorateFirstLine :: "IStandaloneCodeEditor \<Rightarrow> error + effect list" where
  "decorateFirstLine ed =
     (case getModel ed of
        None \<Rightarrow> Inr []
      | Some model \<Rightarrow>
          (case first_titled_line model [1..<Suc (getLineCount model)] of
             Inl e \<Rightarrow> Inl e
           | Inr None \<Rightarrow> Inr []
           | Inr (Some i) \<Rightarrow> Inr [DeltaDecorations i]))"

definition editorReady ::
  "NoteContentEditor \<Rightarrow> IStandaloneCodeEditor \<Rightarrow> NoteContentEditor \<times> outcome" where
  \<comment> \<open>the handlers it registers are the definitions of their own in this theory\<close>
  "editorReady this ed =
     (let this' = this\<lparr>NoteContentEditor.editor := Some ed, monaco := Some Monaco\<rparr>
      in case decorateFirstLine ed of
           Inl e \<Rightarrow> (this', throws [] e)
         | Inr ds \<Rightarrow>
             (case editorSelection (props this) of (startOffset, endOffset, direction) \<Rightarrow>
             (let start = map_option (\<lambda>m. getPositionAt m startOffset) (getModel ed);
                  end' = map_option (\<lambda>m. getPositionAt m endOffset) (getModel ed);
                  es = ds @ [SetOnCopy,
                     SetSelection (createWithDirection
                       (map_option lineNumber start) (map_option column start)
                       (map_option lineNumber end') (map_option column end')
                       (if direction = RTL then SelectionDirection_RTL
                        else SelectionDirection_LTR))]
              in (case start of
                    None \<Rightarrow> (this', throws es TypeError)
                  | Some s \<Rightarrow> (this', completes (es @ [RevealLine (lineNumber s), Focus]))))))"

section \<open>List continuation: \<open>updateNote\<close>\<close>

record IModelContentChange =
  change_range :: IRange  \<comment> \<open>\<open>change.range\<close>\<close>
  change_text :: jsstring  \<comment> \<open>\<open>change.text\<close>\<close>

record IModelContentChangedEvent =
  changes :: "IModelContentChange list"
  eol :: jsstring
  isUndoing :: bool
  isRedoing :: bool

definition list_marker :: "code_unit \<Rightarrow> bool" where
  \<comment> \<open>the class of the pattern: \<open>-\<close>, \<open>+\<close>, \<open>*\<close>, the bullet U+2022 and the two
      checkbox characters U+E000 and U+E001\<close>
  "list_marker c \<longleftrightarrow>
     c = 0x2D \<or> c = 0x2B \<or> c = 0x2A \<or> c = 0x2022 \<or> c = 0xE000 \<or> c = 0xE001"

definition exec_prevList :: "jsstring \<Rightarrow> jsstring option" where
  \<comment> \<open>the pattern \<open>^(\s*)(marker)(\s+)\<close> executed on \<open>prevLine\<close>, giving the whole
      match \<open>prevList[0]\<close>. The greedy \<open>\s*\<close> can give nothing back: a marker is not
      white space.\<close>
  "exec_prevList prevLine =
     (let lead = takeWhile is_space prevLine
      in case dropWhile is_space prevLine of
           [] \<Rightarrow> None
         | c # rest \<Rightarrow>
             if list_marker c \<and> takeWhile is_space rest \<noteq> []
             then Some (lead @ [c] @ takeWhile is_space rest)
             else None)"

definition newline_change :: "IModelContentChange \<Rightarrow> bool" where
  \<comment> \<open>the predicate given to \<open>event.changes.find\<close>\<close>
  "newline_change c \<longleftrightarrow> char_at (change_text c) 0 = Some 0x0A \<and> trim (change_text c) = []"

definition autolist ::
  "NoteContentEditor \<Rightarrow> jsstring \<Rightarrow> IModelContentChangedEvent \<Rightarrow>
     error + effect list \<times> jsstring option" where
  \<comment> \<open>the effects and the value returned (\<open>None\<close> for \<open>undefined\<close>), or the exception\<close>
  "autolist this value event =
     (case NoteContentEditor.editor this of
        None \<Rightarrow> Inr ([], None)
      | Some ed \<Rightarrow>
     (if isRedoing event \<or> isUndoing event then Inr ([], None)
      else
     (case find newline_change (changes event) of
        None \<Rightarrow> Inr ([], None)
      | Some change \<Rightarrow>
     (let lineNumber = startLineNumber (change_range change)
      in
     (if lineNumber = 0 \<or> lineNumber \<noteq> endLineNumber (change_range change)
      then Inr ([], None)
      else
     (case getModel ed of
        None \<Rightarrow> Inl TypeError
      | Some model \<Rightarrow>
     (case getLineContent model lineNumber of
        Inl e \<Rightarrow> Inl e
      | Inr prevLine \<Rightarrow>
     (case exec_prevList prevLine of
        None \<Rightarrow> Inr ([], None)
      | Some prevList0 \<Rightarrow>
     (case getLineContent model (lineNumber + 1) of
        Inl e \<Rightarrow> Inl e
      | Inr thisLine \<Rightarrow>
     (if \<not> list_all is_space thisLine then Inr ([], None)
      else
     (let lineStart = getOffsetAt model \<lparr>lineNumber = lineNumber + 1, column = 0\<rparr>;
          nextStart = getOffsetAt model \<lparr>lineNumber = lineNumber + 2, column = 0\<rparr>
      in
     (case monaco this of
        None \<Rightarrow> Inl TypeError
      | Some _ \<Rightarrow>
     (let rng = \<lparr>startLineNumber = lineNumber + 1, startColumn = 0,
                 endLineNumber = lineNumber + 1, endColumn = length thisLine\<rparr>;
          op = \<lparr>op_range = rng, op_text = prevList0, forceMoveMarkers = True\<rparr>
      in Inr ([ExecuteEdits (js ''autolist'') [op],
               Microtask (SetPosition
                 \<lparr>lineNumber = lineNumber + 1, column = length prevList0 + 1\<rparr>)],
              Some (slice value 0 lineStart @ prevList0 @ eol event
                      @ slice_from value nextStart)))))))))))))))"

definition updateNote ::
  "TaskTransform \<Rightarrow> NoteContentEditor \<Rightarrow> jsstring \<Rightarrow> IModelContentChangedEvent \<Rightarrow> outcome" where
  \<comment> \<open>\<open>autolist() || value\<close>: \<open>undefined\<close> and the empty string give \<open>value\<close>\<close>
  "updateNote tt this value event =
     (case NoteContentEditor.editor this of
        None \<Rightarrow> completes []
      | Some _ \<Rightarrow>
          (case autolist this value event of
             Inl e \<Rightarrow> throws [] e
           | Inr (es, r) \<Rightarrow>
               (let content = (case r of
                                 None \<Rightarrow> value
                               | Some s \<Rightarrow> if s = [] then value else s)
                in completes
                     (es @ [EditNote (Props.noteId (props this)) (withCheckboxSyntax tt content)]))))"

section \<open>Concrete collaborators for the examples\<close>

subsection \<open>A checkbox codec\<close>

text \<open>
  The examples need a codec to run. This one replaces the bracket tokens \<open>[ ]\<close> and
  \<open>[x]\<close> by the characters U+E000 and U+E001 and back.
\<close>

fun spec_withCheckboxCharacters :: "jsstring \<Rightarrow> jsstring" where
  \<comment> \<open>Modelled from the spec: \<open>withCheckboxCharacters\<close> of \<open>./utils/task-transform\<close>,
      whose code is missing. The spec's \<open>decode\<close> replaces each occurrence of
      the checkbox token by the matching private-use character and leaves every other
      character as it is.\<close>
  "spec_withCheckboxCharacters (a # b # c # rest) =
     (if [a, b, c] = [0x5B, 0x20, 0x5D] then 0xE000 # spec_withCheckboxCharacters rest
      else if [a, b, c] = [0x5B, 0x78, 0x5D] then 0xE001 # spec_withCheckboxCharacters rest
      else a # spec_withCheckboxCharacters (b # c # rest))"
| "spec_withCheckboxCharacters s = s"

definition spec_withCheckboxSyntax :: "jsstring \<Rightarrow> jsstring" where
  \<comment> \<open>Modelled from the spec: \<open>withCheckboxSyntax\<close> of \<open>./utils/task-transform\<close>, whose
      code is missing. The spec's \<open>encode\<close> is the inverse replacement,
      character to token.\<close>
  "spec_withCheckboxSyntax s =
     concat (map (\<lambda>c. if c = 0xE000 then [0x5B, 0x20, 0x5D]
                       else if c = 0xE001 then [0x5B, 0x78, 0x5D] else [c]) s)"

definition spec_task_transform :: TaskTransform where
  "spec_task_transform =
     \<lparr>withCheckboxSyntax = spec_withCheckboxSyntax,
      withCheckboxCharacters = spec_withCheckboxCharacters\<rparr>"

subsection \<open>A text model over a list of lines\<close>

text \<open>
  A surface to run the examples on: the lines of a document and its line terminator,
  answering the four queries as the surface's interface documents them. Lines and
  columns are numbered from 1 (\<open>decorateFirstLine\<close> visits the lines \<open>1\<close> to
  \<open>getLineCount()\<close>); \<open>getLineContent\<close> throws outside that range; \<open>getOffsetAt\<close>
  and \<open>getPositionAt\<close> first move their argument to the nearest valid one.
\<close>

definition validatePosition :: "jsstring list \<Rightarrow> IPosition \<Rightarrow> IPosition" where
  "validatePosition lines pos =
     (let n = length lines
      in if lineNumber pos < 1 then \<lparr>lineNumber = 1, column = 1\<rparr>
         else if lineNumber pos > n
           then \<lparr>lineNumber = n, column = length (lines ! (n - 1)) + 1\<rparr>
         else if column pos \<le> 1 then \<lparr>lineNumber = lineNumber pos, column = 1\<rparr>
         else if column pos \<ge> length (lines ! (lineNumber pos - 1)) + 1
           then \<lparr>lineNumber = lineNumber pos,
                 column = length (lines ! (lineNumber pos - 1)) + 1\<rparr>
         else pos)"

definition offset_of :: "jsstring list \<Rightarrow> nat \<Rightarrow> IPosition \<Rightarrow> nat" where
  "offset_of lines eol_length pos =
     sum_list (map (\<lambda>l. length l + eol_length) (take (lineNumber pos - 1) lines))
       + (column pos - 1)"

fun position_of :: "jsstring list \<Rightarrow> nat \<Rightarrow> nat \<Rightarrow> nat \<Rightarrow> IPosition" where
  \<comment> \<open>an offset inside a line terminator resolves to the end of its line, an offset past
      the text to the end of the last line\<close>
  "position_of [] eol_length n off = \<lparr>lineNumber = n, column = 1\<rparr>"
| "position_of [l] eol_length n off = \<lparr>lineNumber = n, column = min off (length l) + 1\<rparr>"
| "position_of (l # ls) eol_length n off =
     (if off < length l + eol_length then \<lparr>lineNumber = n, column = min off (length l) + 1\<rparr>
      else position_of ls eol_length (Suc n) (off - (length l + eol_length)))"

definition text_length :: "jsstring list \<Rightarrow> nat \<Rightarrow> nat" where
  \<comment> \<open>the length of the text of the model: its lines and the terminators between them\<close>
  "text_length lines eol_length =
     sum_list (map length lines) + eol_length * (length lines - 1)"

definition textModel :: "jsstring list \<Rightarrow> jsstring \<Rightarrow> ITextModel" where
  "textModel lines eol_seq =
     \<lparr>getLineCount = length lines,
      getLineContent = (\<lambda>n. if 1 \<le> n \<and> n \<le> length lines then Inr (lines ! (n - 1))
                             else Inl SurfaceError),
      getOffsetAt = (\<lambda>pos. offset_of lines (length eol_seq) (validatePosition lines pos)),
      getPositionAt = position_of lines (length eol_seq) 1\<rparr>"

subsection \<open>Example inputs\<close>

definition initial_state :: OwnState where
  \<comment> \<open>the \<open>state\<close> field of a new component\<close>
  "initial_state = \<lparr>OwnState.content = [], editor = fast, noteId = None, overTodo = False\<rparr>"

definition task_note :: Props where
  \<comment> \<open>a note with the text \<open>- [ ] task\<close> and a line feed\<close>
  "task_note =
     \<lparr>editorSelection = (0, 0, LTR), keyboardShortcuts = True, noteId = js ''n1'',
      note_prop = \<lparr>Note.content = js ''- [ ] task'' @ [0x0A]\<rparr>\<rparr>"

definition task_state :: OwnState where
  \<comment> \<open>the state showing \<open>task_note\<close> in full mode\<close>
  "task_state =
     \<lparr>OwnState.content = js ''- '' @ [0xE000] @ js '' task'' @ [0x0A], editor = full,
      noteId = Some (js ''n1''), overTodo = False\<rparr>"

definition task_editor :: IStandaloneCodeEditor where
  "task_editor = \<lparr>getModel = Some (textModel [js ''- '' @ [0xE000] @ js '' task'', []] [0x0A])\<rparr>"

definition large_note :: Props where
  \<comment> \<open>a note of 6000 characters with the selection at offsets 4 to 10\<close>
  "large_note =
     \<lparr>editorSelection = (4, 10, RTL), keyboardShortcuts = True, noteId = js ''n2'',
      note_prop = \<lparr>Note.content = replicate 6000 0x61\<rparr>\<rparr>"

definition key_chord :: KeyboardEvent where
  "key_chord = \<lparr>code = js ''KeyC'', ctrlKey = False, metaKey = True, shiftKey = True\<rparr>"

definition backward_selection :: Selection where
  "backward_selection =
     \<lparr>getStartPosition = \<lparr>lineNumber = 1, column = 3\<rparr>,
      getEndPosition = \<lparr>lineNumber = 1, column = 8\<rparr>,
      getDirection = SelectionDirection_RTL\<rparr>"

definition click_at :: "nat \<Rightarrow> nat \<Rightarrow> IEditorMouseEvent" where
  "click_at l c = \<lparr>target_range = Some \<lparr>startLineNumber = l, startColumn = c,
       endLineNumber = l, endColumn = c\<rparr>\<rparr>"

definition task_component :: NoteContentEditor where
  \<comment> \<open>the component showing \<open>task_note\<close>, before its surface is ready\<close>
  "task_component =
     \<lparr>props = task_note, state = task_state, bootTimer = None, editor = None, monaco = None\<rparr>"

definition no_timers :: Window where
  "no_timers = \<lparr>timers = [], lastHandle = 0, keydownListener = False\<rparr>"

definition list_component :: "jsstring list \<Rightarrow> NoteContentEditor" where
  \<comment> \<open>a component in full mode whose surface holds the given lines\<close>
  "list_component lines =
     \<lparr>props = \<lparr>editorSelection = (0, 0, LTR), keyboardShortcuts = True, noteId = js ''n3'',
                note_prop = \<lparr>Note.content = []\<rparr>\<rparr>,
      state = \<lparr>OwnState.content = [], editor = full, noteId = Some (js ''n3''),
                overTodo = False\<rparr>,
      bootTimer = None,
      editor = Some \<lparr>getModel = Some (textModel lines [0x0A])\<rparr>,
      monaco = Some Monaco\<rparr>"


definition typed :: "IModelContentChange list \<Rightarrow> IModelContentChangedEvent" where
  "typed cs = \<lparr>changes = cs, eol = [0x0A], isUndoing = False, isRedoing = False\<rparr>"

definition line_break :: "code_unit \<Rightarrow> bool" where
  \<comment> \<open>a line feed or a carriage return\<close>
  "line_break c \<longleftrightarrow> c = 0x0A \<or> c = 0x0D"

definition single_newline :: "jsstring \<Rightarrow> bool" where
  \<comment> \<open>the claim's words: the inserted text is a single newline, ignoring surrounding
      white space. What is left of the text without the white space before and after
      that is no line break is one line terminator, a line feed, alone or after a
      carriage return.\<close>
  "single_newline t \<longleftrightarrow>
     (let core = rev (dropWhile (\<lambda>c. is_space c \<and> \<not> line_break c)
                   (rev (dropWhile (\<lambda>c. is_space c \<and> \<not> line_break c) t)))
      in core = [0x0A] \<or> core = [0x0D, 0x0A])"




definition shortened_note :: Props where
  \<comment> \<open>a note whose text is now \<open>abc\<close> while its persisted selection still ends at 7\<close>
  "shortened_note =
     \<lparr>editorSelection = (1, 7, LTR), keyboardShortcuts = True, noteId = js ''n4'',
      note_prop = \<lparr>Note.content = js ''abc''\<rparr>\<rparr>"

definition shortened_component :: NoteContentEditor where
  "shortened_component =
     \<lparr>props = shortened_note,
      state = \<lparr>OwnState.content = js ''abc'', editor = full, noteId = Some (js ''n4''),
                overTodo = False\<rparr>,
      bootTimer = None,
      editor = Some \<lparr>getModel = Some (textModel [js ''abc''] [0x0A])\<rparr>,
      monaco = Some Monaco\<rparr>"



definition mounted_task :: "NoteContentEditor \<times> Window" where
  "mounted_task = componentDidMount task_component no_timers"


definition crlf_list_component :: "jsstring list \<Rightarrow> NoteContentEditor" where
  \<comment> \<open>as \<open>list_component\<close>, on a document whose line terminator is a carriage return and
      a line feed\<close>
  "crlf_list_component lines =
     (list_component lines)
       \<lparr>NoteContentEditor.editor := Some \<lparr>getModel = Some (textModel lines [0x0D, 0x0A])\<rparr>\<rparr>"

definition selection_at :: "ITextModel \<Rightarrow> nat \<Rightarrow> nat \<Rightarrow> direction \<Rightarrow> effect" where
  \<comment> \<open>the call of \<open>setSelection\<close> that \<open>componentDidUpdate\<close> and \<open>editorReady\<close> make
      when the model resolves the two offsets\<close>
  "selection_at m s e d =
     SetSelection (createWithDirection
       (Some (lineNumber (getPositionAt m s))) (Some (column (getPositionAt m s)))
       (Some (lineNumber (getPositionAt m e))) (Some (column (getPositionAt m e)))
       (if d = RTL then SelectionDirection_RTL else SelectionDirection_LTR))"

definition large_component :: NoteContentEditor where
  \<comment> \<open>the component as it is after a mount on \<open>large_note\<close>, the timer still to arm\<close>
  "large_component =
     \<lparr>props = large_note,
      state = \<lparr>OwnState.content = replicate 5010 0x61, editor = fast,
                noteId = Some (js ''n2''), overTodo = False\<rparr>,
      bootTimer = None, editor = None, monaco = None\<rparr>"

definition switched_to_large :: NoteContentEditor where
  \<comment> \<open>the component mounted on \<open>task_note\<close> after its props have changed to \<open>large_note\<close>\<close>
  "switched_to_large = fst (receive_props spec_task_transform large_note (fst mounted_task))"

section \<open>The character count of the info panel\<close>

lemma surrogates_disjoint: "high_surrogate c \<Longrightarrow> \<not> low_surrogate c"
  by (auto simp add: high_surrogate_def low_surrogate_def word_le_nat_alt)

lemma surrogate_pairs_in_Cons:
  "surrogate_pairs_in (a # b # cs) =
     (if high_surrogate a \<and> low_surrogate b then 1 else 0) + surrogate_pairs_in (b # cs)"
proof -
  have "[0..<Suc (length cs)] = 0 # map Suc [0..<length cs]"
    by (simp add: upt_conv_Cons map_Suc_upt del: upt_Suc)
  then show ?thesis
    by (simp add: surrogate_pairs_in_def filter_map comp_def del: upt_Suc)
qed

lemma surrogate_pairs_in_short: "surrogate_pairs_in [] = 0" "surrogate_pairs_in [a] = 0"
  by (simp_all add: surrogate_pairs_in_def)

lemma length_replace_surrogatePairs:
  "length (replace_surrogatePairs s) + surrogate_pairs_in s = length s"
proof (induction s rule: replace_surrogatePairs.induct)
  case (1 a b cs)
  show ?case
  proof (cases "high_surrogate a \<and> low_surrogate b")
    case True
    then have "\<not> high_surrogate b" using surrogates_disjoint by blast
    then have "surrogate_pairs_in (b # cs) = surrogate_pairs_in cs"
      by (cases cs) (simp_all add: surrogate_pairs_in_short surrogate_pairs_in_Cons)
    with True 1 show ?thesis by (simp add: surrogate_pairs_in_Cons)
  next
    case False
    with 1 show ?thesis by (auto simp add: surrogate_pairs_in_Cons)
  qed
qed (simp_all add: surrogate_pairs_in_short)

text \<open>
  C10: \<open>characterCount\<close> of a string is its number of UTF-16 code units with every
  surrogate pair, a high surrogate immediately followed by a low one, counted once: the
  length less the number of pairs. It is 0 for \<open>null\<close>, \<open>undefined\<close> and the empty
  string.
\<close>

theorem characterCount_counts_pairs_once:
  "characterCount (Some s) = length s - surrogate_pairs_in s
   \<and> characterCount None = 0 \<and> characterCount (Some []) = 0"
  using length_replace_surrogatePairs [of s] by (simp add: characterCount_def)

lemma characterCount_example:
  "characterCount (Some [0x41, 0xD83D, 0xDE00, 0xD83D, 0x42]) = 4"
  by (simp add: characterCount_def high_surrogate_def low_surrogate_def)

section \<open>The keyboard shortcut\<close>

text \<open>
  C8: with keyboard shortcuts enabled, a key-down of Ctrl or Cmd with Shift and the key
  \<open>KeyC\<close> dispatches insert-task and then stops the propagation and the default
  handling of the event. With the flag disabled, or for any other combination, nothing
  is dispatched and the event is left as it is.
\<close>

theorem handleKeys_shortcut:
  "(keyboardShortcuts p \<and> (ctrlKey ev \<or> metaKey ev) \<and> shiftKey ev \<and> code ev = js ''KeyC''
      \<longrightarrow> handleKeys p ev = (Some False, [InsertTask, StopPropagation, PreventDefault]))
   \<and> (\<not> keyboardShortcuts p \<or> \<not> ((ctrlKey ev \<or> metaKey ev) \<and> shiftKey ev \<and> code ev = js ''KeyC'')
      \<longrightarrow> snd (handleKeys p ev) = [])"
  by (auto simp add: handleKeys_def Let_def)

theorem handleKeys_shortcut_witness:
  "handleKeys task_note key_chord = (Some False, [InsertTask, StopPropagation, PreventDefault])
   \<and> snd (handleKeys (task_note\<lparr>keyboardShortcuts := False\<rparr>) key_chord) = []
   \<and> snd (handleKeys task_note (key_chord\<lparr>code := js ''KeyV''\<rparr>)) = []"
  using handleKeys_shortcut [of task_note key_chord]
    handleKeys_shortcut [of "task_note\<lparr>keyboardShortcuts := False\<rparr>" key_chord]
    handleKeys_shortcut [of task_note "key_chord\<lparr>code := js ''KeyV''\<rparr>"]
  by (simp add: task_note_def key_chord_def js_def)

section \<open>Surface to store\<close>

text \<open>
  C6: a selection change of the surface whose reason is neither undo nor redo dispatches
  one persist-selection request with the note id, the offsets of the start and the end
  of the selection, and the direction RTL exactly when the surface reports the selection
  as right to left (its anchor after the active end), LTR otherwise. A change whose
  reason is undo or redo dispatches nothing.
\<close>

theorem cursor_selection_persisted:
  "(reason e \<noteq> Undo \<and> reason e \<noteq> Redo \<and> getModel ed = Some m \<longrightarrow>
      onDidChangeCursorSelection p ed e =
        [StoreEditorSelection (Props.noteId p)
           (Some (getOffsetAt m (getStartPosition (selection e))))
           (Some (getOffsetAt m (getEndPosition (selection e))))
           (if getDirection (selection e) = SelectionDirection_RTL then RTL else LTR)])
   \<and> (reason e = Undo \<or> reason e = Redo \<longrightarrow> onDidChangeCursorSelection p ed e = [])"
  by (cases "getDirection (selection e)") (simp_all add: onDidChangeCursorSelection_def Let_def)

theorem cursor_selection_persisted_witness:
  "onDidChangeCursorSelection task_note task_editor
       \<lparr>reason = Explicit, selection = backward_selection\<rparr>
     = [StoreEditorSelection (js ''n1'') (Some 2) (Some 7) RTL]
   \<and> onDidChangeCursorSelection task_note task_editor
       \<lparr>reason = Explicit,
        selection = backward_selection\<lparr>getDirection := SelectionDirection_LTR\<rparr>\<rparr>
     = [StoreEditorSelection (js ''n1'') (Some 2) (Some 7) LTR]
   \<and> onDidChangeCursorSelection task_note task_editor
       \<lparr>reason = Undo, selection = backward_selection\<rparr> = []"
  using
    cursor_selection_persisted [of "\<lparr>reason = Explicit, selection = backward_selection\<rparr>"
      task_editor "textModel [js ''- '' @ [0xE000] @ js '' task'', []] [0x0A]" task_note]
    cursor_selection_persisted [of "\<lparr>reason = Explicit,
        selection = backward_selection\<lparr>getDirection := SelectionDirection_LTR\<rparr>\<rparr>"
      task_editor "textModel [js ''- '' @ [0xE000] @ js '' task'', []] [0x0A]" task_note]
    cursor_selection_persisted [of "\<lparr>reason = Undo, selection = backward_selection\<rparr>"
      task_editor "textModel [js ''- '' @ [0xE000] @ js '' task'', []] [0x0A]" task_note]
  by (simp add: task_editor_def task_note_def backward_selection_def textModel_def
        validatePosition_def offset_of_def js_def)

lemma cursor_selection_without_model:
  "reason e \<noteq> Undo \<Longrightarrow> reason e \<noteq> Redo \<Longrightarrow> getModel ed = None \<Longrightarrow>
     \<exists>d. onDidChangeCursorSelection p ed e = [StoreEditorSelection (Props.noteId p) None None d]"
  by (simp add: onDidChangeCursorSelection_def Let_def)

section \<open>Toggling a checkbox\<close>

text \<open>
  C7: a mouse-down whose offset holds the unchecked character U+E000 in the displayed
  content dispatches an edit-note request with the displayed content in which that one
  character is replaced by the checked character U+E001, passed through
  \<open>withCheckboxSyntax\<close>; the same with the two characters exchanged; an offset holding
  anything else, or nothing, dispatches no edit.
\<close>

theorem onMouseDown_toggles:
  assumes "target_range ev = Some rng" and "getModel ed = Some m"
  shows "let offset = getOffsetAt m \<lparr>lineNumber = startLineNumber rng, column = startColumn rng\<rparr>;
             c = OwnState.content st
         in (offset < length c \<and> c ! offset = 0xE000 \<longrightarrow>
               onMouseDown tt p st ed ev
                 = [EditNote (Props.noteId p) (withCheckboxSyntax tt (c[offset := 0xE001]))])
          \<and> (offset < length c \<and> c ! offset = 0xE001 \<longrightarrow>
               onMouseDown tt p st ed ev
                 = [EditNote (Props.noteId p) (withCheckboxSyntax tt (c[offset := 0xE000]))])
          \<and> (\<not> (offset < length c \<and> (c ! offset = 0xE000 \<or> c ! offset = 0xE001)) \<longrightarrow>
               onMouseDown tt p st ed ev = [])"
  using assms
  by (auto simp add: onMouseDown_def Let_def char_at_def slice_def slice_from_def
        upd_conv_take_nth_drop)

theorem onMouseDown_toggles_witness:
  "onMouseDown spec_task_transform task_note task_state task_editor (click_at 1 3)
     = [EditNote (js ''n1'') (js ''- [x] task'' @ [0x0A])]
   \<and> onMouseDown spec_task_transform task_note
        (task_state\<lparr>OwnState.content := js ''- '' @ [0xE001] @ js '' task'' @ [0x0A]\<rparr>)
        task_editor (click_at 1 3)
     = [EditNote (js ''n1'') (js ''- [ ] task'' @ [0x0A])]
   \<and> onMouseDown spec_task_transform task_note task_state task_editor (click_at 1 5) = []"
proof -
  let ?m = "textModel [js ''- '' @ [0xE000] @ js '' task'', []] [0x0A]"
  have r: "target_range (click_at 1 3) = Some \<lparr>startLineNumber = 1, startColumn = 3,
       endLineNumber = 1, endColumn = 3\<rparr>"
     "target_range (click_at 1 5) = Some \<lparr>startLineNumber = 1, startColumn = 5,
       endLineNumber = 1, endColumn = 5\<rparr>"
    by (simp_all add: click_at_def)
  have m: "getModel task_editor = Some ?m" by (simp add: task_editor_def)
  show ?thesis
    using onMouseDown_toggles [OF r(1) m, of task_state spec_task_transform task_note]
      onMouseDown_toggles [OF r(1) m, of
        "task_state\<lparr>OwnState.content := js ''- '' @ [0xE001] @ js '' task'' @ [0x0A]\<rparr>"
        spec_task_transform task_note]
      onMouseDown_toggles [OF r(2) m, of task_state spec_task_transform task_note]
    by (simp add: Let_def textModel_def validatePosition_def offset_of_def
          task_state_def task_note_def spec_task_transform_def
          spec_withCheckboxSyntax_def js_def)
qed

section \<open>Mode selection\<close>

text \<open>
  C2: when the note id of the props differs from the one of the state (a note switch), a
  content of at most 5000 characters gives full mode with the decoded content, and a
  longer content gives fast mode with the first \<open>selectionEndOffset + 5000\<close>
  characters of the raw content.
\<close>

theorem note_switch_mode:
  assumes "Some (Props.noteId p) \<noteq> OwnState.noteId st"
    and "c = Note.content (note_prop p)"
  shows "(length c \<le> 5000 \<longrightarrow>
            getDerivedStateFromProps tt p st
              = Some (st\<lparr>OwnState.content := withCheckboxCharacters tt c,
                         OwnState.editor := full,
                         OwnState.noteId := Some (Props.noteId p)\<rparr>))
       \<and> (length c > 5000 \<longrightarrow>
            getDerivedStateFromProps tt p st
              = Some (st\<lparr>OwnState.content := take (fst (snd (editorSelection p)) + 5000) c,
                         OwnState.editor := fast,
                         OwnState.noteId := Some (Props.noteId p)\<rparr>))"
  using assms by (simp add: getDerivedStateFromProps_def Let_def slice_def)

theorem note_switch_mode_witness:
  "getDerivedStateFromProps spec_task_transform task_note initial_state = Some task_state
   \<and> getDerivedStateFromProps spec_task_transform large_note task_state
       = Some \<lparr>OwnState.content = replicate 5010 0x61, editor = fast,
               noteId = Some (js ''n2''), overTodo = False\<rparr>"
proof -
  have a: "Some (Props.noteId task_note) \<noteq> OwnState.noteId initial_state"
    by (simp add: initial_state_def)
  have b: "Some (Props.noteId large_note) \<noteq> OwnState.noteId task_state"
    by (simp add: large_note_def task_state_def js_def)
  show ?thesis
    using note_switch_mode [OF a refl, of spec_task_transform]
      note_switch_mode [OF b refl, of spec_task_transform]
    by (simp add: task_note_def initial_state_def task_state_def large_note_def
          spec_task_transform_def js_def)
qed

section \<open>Store to surface on mount\<close>

text \<open>
  C5: the code at the input on which it departs from the claim. When \<open>getModel()\<close> is
  \<open>null\<close> as the surface becomes ready, \<open>editorReady\<close> still calls \<open>setSelection\<close>,
  with four undefined coordinates, and then throws a \<open>TypeError\<close> on reading
  \<open>start.lineNumber\<close> for \<open>revealLine\<close>; \<open>componentDidUpdate\<close> calls
  \<open>setSelection\<close> with undefined coordinates as well. The claim asks for no call and
  no exception.
\<close>

theorem editorReady_null_model_throws:
  "snd (editorReady task_component \<lparr>getModel = None\<rparr>)
     = throws [SetOnCopy,
               SetSelection (createWithDirection None None None None SelectionDirection_LTR)]
         TypeError
   \<and> componentDidUpdate (task_note\<lparr>editorSelection := (1, 1, LTR)\<rparr>)
        (task_component\<lparr>NoteContentEditor.editor := Some \<lparr>getModel = None\<rparr>\<rparr>)
     = [SetSelection (createWithDirection None None None None SelectionDirection_LTR)]"
  by (simp add: editorReady_def decorateFirstLine_def task_component_def task_note_def
        task_state_def componentDidUpdate_def)

theorem editorReady_null_model_throws_witness:
  "thrown (snd (editorReady task_component \<lparr>getModel = None\<rparr>)) = Some TypeError
   \<and> componentDidUpdate (task_note\<lparr>editorSelection := (1, 1, LTR)\<rparr>)
        (task_component\<lparr>NoteContentEditor.editor := Some \<lparr>getModel = None\<rparr>\<rparr>) \<noteq> []"
  using editorReady_null_model_throws by (simp add: throws_def)

section \<open>List continuation\<close>









text \<open>
  Two events outside the amended statement, on which the test of the code and the words
  \<open>a single newline\<close> part. A newline on a document whose terminator is a carriage
  return and a line feed arrives as these two characters and is not continued, although
  the handler builds its result with the terminator of the event. A text of two line
  feeds is continued.
\<close>

lemma crlf_newline_is_not_continued:
  "single_newline [0x0D, 0x0A]
   \<and> updateNote spec_task_transform (crlf_list_component [js ''- x'', []])
       (js ''- x'' @ [0x0D, 0x0A])
       \<lparr>changes = [\<lparr>change_range = \<lparr>startLineNumber = 1, startColumn = 4, endLineNumber = 1,
                                   endColumn = 4\<rparr>, change_text = [0x0D, 0x0A]\<rparr>],
        eol = [0x0D, 0x0A], isUndoing = False, isRedoing = False\<rparr>
     = completes [EditNote (js ''n3'') (js ''- x'' @ [0x0D, 0x0A])]"
  by code_simp

lemma two_newlines_are_continued:
  "\<not> single_newline [0x0A, 0x0A]
   \<and> effects (updateNote spec_task_transform (list_component [js ''- x'', [], []])
        (js ''- x'' @ [0x0A, 0x0A])
        (typed [\<lparr>change_range = \<lparr>startLineNumber = 1, startColumn = 4, endLineNumber = 1,
                                  endColumn = 4\<rparr>, change_text = [0x0A, 0x0A]\<rparr>]))
     = [ExecuteEdits (js ''autolist'')
            [\<lparr>op_range = \<lparr>startLineNumber = 2, startColumn = 0, endLineNumber = 2,
                            endColumn = 0\<rparr>,
              op_text = js ''- '', forceMoveMarkers = True\<rparr>],
        Microtask (SetPosition \<lparr>lineNumber = 2, column = 3\<rparr>),
        EditNote (js ''n3'') (js ''- x'' @ [0x0A] @ js ''- '' @ [0x0A])]"
  by code_simp

subsection \<open>The first line\<close>




section \<open>The promotion timer\<close>

lemma find_filter_other: "find (\<lambda>t. handle t = h) (filter (\<lambda>t. handle t \<noteq> h) ts) = None"
  by (induction ts) auto

text \<open>
  The timer over the life of a component. \<open>componentDidMount\<close> arms exactly one
  timer, of 120 milliseconds, whose callback captures the note id of the props at mount.
  When it fires, if the note id of the current props is the captured one the editor goes
  to full mode with the decoded content of the current note; if it differs, the callback
  changes nothing. \<open>componentWillUnmount\<close> cancels the timer. An update with new
  props leaves the timer handle as it is.
\<close>

lemma promotion_timer_lifecycle:
  "(timers (snd (componentDidMount this win))
      = timers win @ [\<lparr>handle = Suc (lastHandle win), delay = 120,
                        captured_noteId = Props.noteId (props this)\<rparr>]
    \<and> bootTimer (fst (componentDidMount this win)) = Some (Suc (lastHandle win)))
   \<and> (find (\<lambda>t. handle t = h) (timers win) = Some t
        \<and> captured_noteId t = Props.noteId (props this) \<longrightarrow>
        fst (timer_fires tt h (this, win))
          = this\<lparr>state := (state this)\<lparr>
              OwnState.editor := full,
              OwnState.content := withCheckboxCharacters tt (Note.content (note_prop (props this)))\<rparr>\<rparr>)
   \<and> (find (\<lambda>t. handle t = h) (timers win) = Some t
        \<and> captured_noteId t \<noteq> Props.noteId (props this) \<longrightarrow>
        fst (timer_fires tt h (this, win)) = this)
   \<and> (bootTimer this = Some h \<and> h \<noteq> 0 \<longrightarrow>
        find (\<lambda>t. handle t = h) (timers (componentWillUnmount this win)) = None
        \<and> timer_fires tt h (this, componentWillUnmount this win)
            = (this, componentWillUnmount this win))
   \<and> bootTimer (fst (receive_props tt newProps this)) = bootTimer this"
  by (simp add: componentDidMount_def Let_def SPEED_DELAY_def timer_fires_def
        bootTimer_callback_def componentWillUnmount_def clearTimeout_def receive_props_def
        find_filter_other)

text \<open>
  C3: the code at the input on which it departs from the claim. The component is mounted
  on the small note \<open>n1\<close>, which arms the one timer, and its props then change to the
  note \<open>n2\<close> of 6000 characters. The editor is in fast mode for \<open>n2\<close>; the only
  pending timer is still the one of the mount, with \<open>n1\<close> captured: the switch has
  neither cancelled it nor armed one for \<open>n2\<close>. When it fires the component stays as
  it is and no timer is left, so \<open>n2\<close> is never promoted to full mode. A mount on
  \<open>n2\<close> itself does promote it when the timer fires.
\<close>

theorem note_switch_into_oversized_note_is_not_promoted:
  "timers (snd mounted_task) = [\<lparr>handle = 1, delay = 120, captured_noteId = js ''n1''\<rparr>]
   \<and> OwnState.editor (state switched_to_large) = fast
   \<and> Props.noteId (props switched_to_large) = js ''n2''
   \<and> bootTimer switched_to_large = Some 1
   \<and> timer_fires spec_task_transform 1 (switched_to_large, snd mounted_task)
       = (switched_to_large, snd mounted_task\<lparr>timers := []\<rparr>)
   \<and> OwnState.editor (state (fst (timer_fires spec_task_transform 1
         (componentDidMount large_component no_timers)))) = full"
  by (simp add: switched_to_large_def mounted_task_def componentDidMount_def no_timers_def
        task_component_def large_component_def
        task_note_def task_state_def large_note_def receive_props_def
        getDerivedStateFromProps_def timer_fires_def bootTimer_callback_def clearTimeout_def
        SPEED_DELAY_def js_def Let_def)

theorem note_switch_into_oversized_note_is_not_promoted_witness:
  "OwnState.editor (state (fst (timer_fires spec_task_transform 1
      (switched_to_large, snd mounted_task)))) = fast
   \<and> timers (snd (timer_fires spec_task_transform 1 (switched_to_large, snd mounted_task))) = []"
  using note_switch_into_oversized_note_is_not_promoted by simp

section \<open>Store to surface: the persisted offsets\<close>

lemma text_length_Cons:
  "text_length (l # l' # ls) el = length l + el + text_length (l' # ls) el"
  by (simp add: text_length_def)

lemma position_of_clamps:
  "position_of ls el n off = position_of ls el n (min off (text_length ls el))"
proof (induction ls el n off rule: position_of.induct)
  case (1 el n off)
  show ?case by simp
next
  case (2 l el n off)
  show ?case by (simp add: text_length_def)
next
  case (3 l l' ls el n off)
  let ?T = "text_length (l' # ls) el"
  show ?case
  proof (cases "off < length l + el")
    case True
    then have "min off (text_length (l # l' # ls) el) = off"
      by (simp add: text_length_Cons)
    then show ?thesis by simp
  next
    case False
    then have m: "min off (text_length (l # l' # ls) el) - (length l + el)
                    = min (off - (length l + el)) ?T"
      and n: "\<not> min off (text_length (l # l' # ls) el) < length l + el"
      by (simp_all add: text_length_Cons)
    from False have "position_of (l # l' # ls) el n off
        = position_of (l' # ls) el (Suc n) (off - (length l + el))" by simp
    also have "\<dots> = position_of (l' # ls) el (Suc n) (min (off - (length l + el)) ?T)"
      using 3 False by simp
    also have "\<dots> = position_of (l # l' # ls) el n (min off (text_length (l # l' # ls) el))"
      using n m by simp
    finally show ?thesis .
  qed
qed

lemma getPositionAt_textModel_clamps:
  "getPositionAt (textModel ls eol_seq) off
     = getPositionAt (textModel ls eol_seq) (min off (text_length ls (length eol_seq)))"
  using position_of_clamps [of ls "length eol_seq" 1 off] by (simp add: textModel_def)

lemma first_titled_line_textModel:
  "\<forall>i\<in>set is. 1 \<le> i \<and> i \<le> length ls \<Longrightarrow>
     \<exists>r. first_titled_line (textModel ls eol_seq) is = Inr r"
  by (induction "is") (auto simp add: textModel_def)

lemma decorateFirstLine_textModel:
  "getModel ed = Some (textModel ls eol_seq) \<Longrightarrow> \<exists>ds. decorateFirstLine ed = Inr ds"
proof -
  assume m: "getModel ed = Some (textModel ls eol_seq)"
  have "\<forall>i\<in>set [1..<Suc (length ls)]. 1 \<le> i \<and> i \<le> length ls" by auto
  from first_titled_line_textModel [OF this, of eol_seq]
  obtain r where "first_titled_line (textModel ls eol_seq) [1..<Suc (length ls)] = Inr r" by blast
  with m show ?thesis
    by (cases r) (simp_all add: decorateFirstLine_def textModel_def)
qed

text \<open>
  C4. The component hands the persisted offsets to the surface's \<open>getPositionAt\<close> as
  they are, and the surface moves an offset past its text to the end of the text. So on
  a text model of length \<open>L\<close>, whatever the persisted offsets are, the selection that
  \<open>componentDidUpdate\<close> and \<open>editorReady\<close> set, and the line that \<open>editorReady\<close>
  reveals, are those of the offsets clamped into \<open>[0, L]\<close>. The one access of the
  component to the content with a persisted offset, the slice taken on a switch into a
  note of more than 5000 characters, stops at the length of the content.
\<close>

theorem persisted_offsets_are_clamped:
  assumes "getModel ed = Some m" and "m = textModel lines eol_seq"
    and "L = text_length lines (length eol_seq)"
    and "editorSelection (props this) = (s, e, d)"
  shows "(NoteContentEditor.editor this = Some ed \<and> OwnState.editor (state this) = full
            \<and> editorSelection prevProps \<noteq> (s, e, d) \<longrightarrow>
            componentDidUpdate prevProps this = [selection_at m (min s L) (min e L) d])
       \<and> (\<exists>ds. snd (editorReady this ed)
             = completes (ds @ [SetOnCopy, selection_at m (min s L) (min e L) d,
                                RevealLine (lineNumber (getPositionAt m (min s L))), Focus]))
       \<and> (Some (Props.noteId (props this)) \<noteq> OwnState.noteId st
            \<and> length (Note.content (note_prop (props this))) > 5000 \<longrightarrow>
            map_option OwnState.content (getDerivedStateFromProps tt (props this) st)
              = Some (take (min (e + 5000) (length (Note.content (note_prop (props this)))))
                        (Note.content (note_prop (props this)))))"
proof (intro conjI impI)
  have ps: "getPositionAt m (min s L) = getPositionAt m s"
    and pe: "getPositionAt m (min e L) = getPositionAt m e"
    using getPositionAt_textModel_clamps [of lines eol_seq] assms(2,3) by simp_all
  {
    assume "NoteContentEditor.editor this = Some ed \<and> OwnState.editor (state this) = full
            \<and> editorSelection prevProps \<noteq> (s, e, d)"
    then show "componentDidUpdate prevProps this = [selection_at m (min s L) (min e L) d]"
      using assms(1,4)
      by (cases "editorSelection prevProps")
         (auto simp add: componentDidUpdate_def selection_at_def ps pe)
  }
  from decorateFirstLine_textModel [of ed lines eol_seq] assms(1,2)
  obtain ds where "decorateFirstLine ed = Inr ds" by blast
  then have "snd (editorReady this ed)
             = completes (ds @ [SetOnCopy, selection_at m (min s L) (min e L) d,
                                RevealLine (lineNumber (getPositionAt m (min s L))), Focus])"
    using assms(1,4) by (simp add: editorReady_def selection_at_def ps pe Let_def)
  then show "\<exists>ds. snd (editorReady this ed)
             = completes (ds @ [SetOnCopy, selection_at m (min s L) (min e L) d,
                                RevealLine (lineNumber (getPositionAt m (min s L))), Focus])"
    by blast
  {
    assume "Some (Props.noteId (props this)) \<noteq> OwnState.noteId st
            \<and> length (Note.content (note_prop (props this))) > 5000"
    then show "map_option OwnState.content (getDerivedStateFromProps tt (props this) st)
              = Some (take (min (e + 5000) (length (Note.content (note_prop (props this)))))
                        (Note.content (note_prop (props this))))"
      using assms(4) by (simp add: getDerivedStateFromProps_def Let_def slice_def min_def)
  }
qed

theorem persisted_offsets_are_clamped_witness:
  "componentDidUpdate (shortened_note\<lparr>editorSelection := (0, 0, LTR)\<rparr>) shortened_component
     = [SetSelection (createWithDirection (Some 1) (Some 2) (Some 1) (Some 4)
          SelectionDirection_LTR)]
   \<and> (\<exists>ds. snd (editorReady shortened_component
                 \<lparr>getModel = Some (textModel [js ''abc''] [0x0A])\<rparr>)
     = completes (ds @ [SetOnCopy,
         SetSelection (createWithDirection (Some 1) (Some 2) (Some 1) (Some 4)
           SelectionDirection_LTR),
         RevealLine 1, Focus]))"
proof -
  let ?m = "textModel [js ''abc''] [0x0A]"
  have g: "getModel \<lparr>getModel = Some ?m\<rparr> = Some ?m" by simp
  have L: "(3::nat) = text_length [js ''abc''] (length [0x0A :: code_unit])"
    by (simp add: text_length_def js_def)
  have sel: "editorSelection (props shortened_component) = (1, 7, LTR)"
    by (simp add: shortened_component_def shortened_note_def)
  have h: "NoteContentEditor.editor shortened_component = Some \<lparr>getModel = Some ?m\<rparr>
      \<and> OwnState.editor (state shortened_component) = full
      \<and> editorSelection (shortened_note\<lparr>editorSelection := (0, 0, LTR)\<rparr>) \<noteq> (1, 7, LTR)"
    by (simp add: shortened_component_def shortened_note_def)
  have p: "selection_at ?m (min 1 3) (min 7 3) LTR
      = SetSelection (createWithDirection (Some 1) (Some 2) (Some 1) (Some 4)
          SelectionDirection_LTR)"
    "lineNumber (getPositionAt ?m (min 1 3)) = 1"
    by code_simp+
  note t = persisted_offsets_are_clamped [OF g refl L sel]
  have c1: "componentDidUpdate (shortened_note\<lparr>editorSelection := (0, 0, LTR)\<rparr>)
        shortened_component
      = [SetSelection (createWithDirection (Some 1) (Some 2) (Some 1) (Some 4)
          SelectionDirection_LTR)]"
    using t [THEN conjunct1, rule_format, OF h] by (simp only: p)
  have c2: "\<exists>ds. snd (editorReady shortened_component \<lparr>getModel = Some ?m\<rparr>)
     = completes (ds @ [SetOnCopy,
         SetSelection (createWithDirection (Some 1) (Some 2) (Some 1) (Some 4)
           SelectionDirection_LTR),
         RevealLine 1, Focus])"
    using t [THEN conjunct2, THEN conjunct1] by (simp only: p)
  show ?thesis using c1 c2 by (rule conjI)
qed

end
